theory Spec2Isabelle
  imports Main "HOL-Library.Word"
begin

section \<open>The steganography encoder: data model\<close>

text \<open>
  The development follows \<^verbatim>\<open>src/main.cpp\<close>: the container header, the padding of the
  payload, the capacity arithmetic, the choice of the embedding offset, and the two
  orchestrating functions \<^verbatim>\<open>encode\<close> and \<^verbatim>\<open>decode\<close> with the \<^verbatim>\<open>main\<close> that calls them.
  The class \<^verbatim>\<open>Image\<close> (\<^verbatim>\<open>image.hpp\<close>), \<^verbatim>\<open>Random\<close> (\<^verbatim>\<open>random.hpp\<close>) and
  \<^verbatim>\<open>data_size\<close> (\<^verbatim>\<open>utils.hpp\<close>) are not among the sources. What \<^verbatim>\<open>main.cpp\<close> needs of
  them is either a parameter of the model (the pixels an image decodes to, the random
  draw, whether a file opens) or, for \<^verbatim>\<open>Image::encoded_size\<close>, a definition that follows
  the specification.
\<close>

type_synonym byte = "8 word"

datatype EncodingLevel = Low | Medium | High

text \<open>\<^verbatim>\<open>static_cast<std::uint8_t>(level)\<close>: the enumerators in the order of \<^verbatim>\<open>level_to_str\<close>.\<close>

fun level_index :: "EncodingLevel \<Rightarrow> nat" where
  "level_index Low = 0"
| "level_index Medium = 1"
| "level_index High = 2"

text \<open>
  Modelled from the spec: the bits that a level writes into one channel-slot. They are
  fixed in \<^verbatim>\<open>image.hpp\<close>, which is missing; the specification names Low 1, Medium 2
  and High 4.
\<close>

fun bits_per_slot :: "EncodingLevel \<Rightarrow> nat" where
  "bits_per_slot Low = 1"
| "bits_per_slot Medium = 2"
| "bits_per_slot High = 4"

text \<open>
  Modelled from the spec: \<^verbatim>\<open>Image::encoded_size\<close> is declared in \<^verbatim>\<open>image.hpp\<close>, which is
  missing. The specification gives the number of channel-slots of \<open>byte_count\<close> bytes
  as \<open>ceil (byte_count * 8 / bits_per_slot level)\<close>.
\<close>

definition encoded_size :: "nat \<Rightarrow> EncodingLevel \<Rightarrow> nat" where
  "encoded_size byte_count lvl =
     (byte_count * 8 + bits_per_slot lvl - 1) div bits_per_slot lvl"

subsection \<open>The header\<close>

text \<open>
  \<^verbatim>\<open>struct Header\<close>, lines 16 to 25. The arrays of the struct are lists here: 4
  signature bytes, 32 name bytes and 12 reserved bytes in every header that
  \<^verbatim>\<open>encode\<close> builds or \<^verbatim>\<open>decode\<close> reads.
\<close>

record Header =
  h_sig :: "byte list"
  h_version :: "16 word"
  h_level :: byte
  h_flags :: byte
  h_offset :: "32 word"
  h_size :: "32 word"
  h_name :: "byte list"
  h_reserved :: "byte list"

text \<open>
  \<^verbatim>\<open>sizeof(Header)\<close>: the members in order, 4 one-byte signature cells, a 16-bit version,
  two single bytes, two 32-bit words, 32 name bytes and 12 reserved bytes. Every member
  starts at a multiple of its own alignment (the version at 4, the offset at 8, the size
  at 12) and the total is a multiple of 4, so the compiler inserts no padding.
\<close>

definition sizeof_Header :: nat where
  "sizeof_Header = 4 + 2 + 1 + 1 + 4 + 4 + 32 + 12"

text \<open>The object representation of the scalar members (little-endian host).\<close>

definition le16 :: "16 word \<Rightarrow> byte list" where
  "le16 v = [ucast v, ucast (drop_bit 8 v)]"

definition le32 :: "32 word \<Rightarrow> byte list" where
  "le32 v = [ucast v, ucast (drop_bit 8 v), ucast (drop_bit 16 v), ucast (drop_bit 24 v)]"

definition rd16 :: "byte list \<Rightarrow> 16 word" where
  "rd16 bs = ucast (bs ! 0) + push_bit 8 (ucast (bs ! 1))"

definition rd32 :: "byte list \<Rightarrow> 32 word" where
  "rd32 bs = ucast (bs ! 0) + push_bit 8 (ucast (bs ! 1))
           + push_bit 16 (ucast (bs ! 2)) + push_bit 24 (ucast (bs ! 3))"

text \<open>
  \<^verbatim>\<open>reinterpret_cast<const uint8_t*>(&header)\<close> read for \<^verbatim>\<open>sizeof(header)\<close> bytes
  (line 92), and the \<^verbatim>\<open>memcpy\<close> into a \<^verbatim>\<open>Header\<close> of line 111.
\<close>

definition header_bytes :: "Header \<Rightarrow> byte list" where
  "header_bytes h =
     h_sig h @ le16 (h_version h) @ [h_level h] @ [h_flags h] @ le32 (h_offset h)
     @ le32 (h_size h) @ h_name h @ h_reserved h"

definition header_of_bytes :: "byte list \<Rightarrow> Header" where
  "header_of_bytes bs =
     \<lparr> h_sig = take 4 bs,
       h_version = rd16 (take 2 (drop 4 bs)),
       h_level = bs ! 6,
       h_flags = bs ! 7,
       h_offset = rd32 (take 4 (drop 8 bs)),
       h_size = rd32 (take 4 (drop 12 bs)),
       h_name = take 32 (drop 16 bs),
       h_reserved = take 12 (drop 48 bs) \<rparr>"

text \<open>\<^verbatim>\<open>#define VERSION 1\<close> and the signature \<^verbatim>\<open>'H' 'I' 'D' 'E'\<close> of lines 76 and 113.\<close>

definition VERSION :: "16 word" where
  "VERSION = 1"

definition signature :: "byte list" where
  "signature = map of_char ''HIDE''"

subsection \<open>Padding\<close>

text \<open>
  Lines 43 to 46: \<^verbatim>\<open>padded_size = size + 1; if (padded_size % 16) padded_size =
  (size / 16 + 1) * 16\<close>. Both are \<^verbatim>\<open>std::size_t\<close>; a file has fewer than \<open>2 ^ 63\<close>
  bytes (\<^verbatim>\<open>tellg\<close> returns a signed 64-bit position), so neither expression wraps and
  the sizes are natural numbers here.
\<close>

definition padded_size_of :: "nat \<Rightarrow> nat" where
  "padded_size_of sz =
     (if (sz + 1) mod 16 \<noteq> 0 then (sz div 16 + 1) * 16 else sz + 1)"

text \<open>
  Lines 58 to 64: the buffer holds the file, then \<^verbatim>\<open>left\<close> bytes of value \<^verbatim>\<open>left\<close>, where
  \<^verbatim>\<open>std::uint8_t left = padded_size - size\<close>.
\<close>

definition pad_left :: "nat \<Rightarrow> byte" where
  "pad_left sz = of_nat (padded_size_of sz - sz)"

definition padded_data_of :: "byte list \<Rightarrow> byte list" where
  "padded_data_of raw =
     raw @ replicate (unat (pad_left (length raw))) (pad_left (length raw))"

text \<open>
  Lines 141 to 142 and 153 of \<^verbatim>\<open>decode\<close>: \<^verbatim>\<open>left = data[header.size - 1]\<close>,
  \<^verbatim>\<open>size = header.size - left\<close> in unsigned 32-bit arithmetic, and the first \<^verbatim>\<open>size\<close>
  bytes of the buffer are written. The buffer has \<^verbatim>\<open>header.size\<close> bytes, so the read of
  the last byte is out of bounds when \<^verbatim>\<open>header.size\<close> is 0, and the write reads past the
  buffer when the difference wraps around; both are \<open>None\<close>.
\<close>

definition trimmed_size :: "32 word \<Rightarrow> byte \<Rightarrow> nat" where
  "trimmed_size hsize left = unat (hsize - ucast left)"

definition trim :: "byte list \<Rightarrow> byte list option" where
  "trim data =
     (if data = [] then None
      else let sz = trimmed_size (of_nat (length data)) (last data)
           in if sz \<le> length data then Some (take sz data) else None)"

subsection \<open>Capacity and the embedding offset\<close>

text \<open>
  Line 48: \<^verbatim>\<open>unsigned int max_size = image.w() * image.h() * 4 / Image::encoded_size(1,
  level) - Image::encoded_size(sizeof(Header), Image::EncodingLevel::Low)\<close>. The
  difference is stored in an \<^verbatim>\<open>unsigned int\<close>: whether the operands are \<^verbatim>\<open>int\<close>,
  \<^verbatim>\<open>unsigned\<close> or \<^verbatim>\<open>std::size_t\<close>, the stored value is the mathematical difference
  reduced modulo \<open>2 ^ 32\<close>. The types of \<^verbatim>\<open>w()\<close> and \<^verbatim>\<open>h()\<close> are declared in
  \<^verbatim>\<open>image.hpp\<close>; the product \<^verbatim>\<open>w * h * 4\<close> is taken without overflow, which every candidate
  type gives for \<open>w * h * 4 < 2 ^ 31\<close>.
\<close>

definition max_size_of :: "nat \<Rightarrow> nat \<Rightarrow> EncodingLevel \<Rightarrow> nat" where
  "max_size_of w h lvl =
     nat ((int (w * h * 4 div encoded_size 1 lvl) - int (encoded_size sizeof_Header Low))
          mod 2 ^ 32)"

text \<open>
  Line 73: \<^verbatim>\<open>offset = (offset + Image::encoded_size(sizeof(Header), Low)) %
  (Image::encoded_size(max_size - padded_size, level))\<close>, where \<^verbatim>\<open>offset\<close> holds the
  random 32-bit draw. The remainder by zero is undefined behaviour: \<open>None\<close>. The slot
  counts are \<^verbatim>\<open>std::size_t\<close> here, so the sum is formed without reduction modulo
  \<open>2 ^ 32\<close>, and the result is stored back into the 32-bit \<^verbatim>\<open>offset\<close>.
\<close>

definition offset_of :: "32 word \<Rightarrow> nat \<Rightarrow> nat \<Rightarrow> EncodingLevel \<Rightarrow> 32 word option" where
  "offset_of r max_size padded_size lvl =
     (let m = encoded_size (max_size - padded_size) lvl
      in if m = 0 then None
         else Some (of_nat ((unat r + encoded_size sizeof_Header Low) mod m)))"

subsection \<open>The environment, and what a run does\<close>

text \<open>
  An \<^verbatim>\<open>Image\<close> is used through \<^verbatim>\<open>w()\<close>, \<^verbatim>\<open>h()\<close>, \<^verbatim>\<open>encode\<close>, \<^verbatim>\<open>decode\<close> and \<^verbatim>\<open>save\<close>.
  \<open>img_decode img n lvl off\<close> is the buffer that \<^verbatim>\<open>image.decode(n, lvl, off)\<close> returns,
  as a function of the index (\<open>off = None\<close> when the call leaves the offset to its
  default argument); \<open>buffer\<close> reads its \<open>n\<close> bytes.
\<close>

record Image =
  img_w :: nat
  img_h :: nat
  img_decode :: "nat \<Rightarrow> EncodingLevel \<Rightarrow> nat option \<Rightarrow> nat \<Rightarrow> byte"

definition buffer :: "nat \<Rightarrow> (nat \<Rightarrow> byte) \<Rightarrow> byte list" where
  "buffer n f = map f [0..<n]"

text \<open>
  The files and devices a run touches: the content of a file that \<^verbatim>\<open>std::ifstream\<close>
  opens (\<open>None\<close> when it does not open), the 32-bit value \<^verbatim>\<open>Random::get\<close> delivers
  (\<open>None\<close> when it fails), the image \<^verbatim>\<open>Image::load\<close> reads, whether \<^verbatim>\<open>Image::save\<close>
  succeeds, and whether \<^verbatim>\<open>std::ofstream\<close> opens a path for writing.
\<close>

record World =
  file_contents :: "string \<Rightarrow> byte list option"
  random_get :: "32 word option"
  image_load :: "string \<Rightarrow> Image option"
  image_save :: "string \<Rightarrow> bool"
  file_writable :: "string \<Rightarrow> bool"

text \<open>
  The diagnostics of \<^verbatim>\<open>main.cpp\<close>, one constructor per message:
  \<open>IoError\<close> "Unable to open file" and "Unable to save file",
  \<open>CapacityExceeded k\<close> "Data-File too big, maximum possible size: k KiB",
  \<open>RandomnessUnavailable\<close> "Unable to generate random number",
  \<open>NameTooLong\<close> "File name ... is over 32 characters",
  \<open>SaveFailed\<close> "Unable to save image!",
  \<open>InvalidSignature\<close>, \<open>UnsupportedVersion v\<close> and \<open>InvalidReserved\<close> for the three
  header checks, \<open>Usage\<close>, \<open>LoadFailed\<close> and \<open>UnknownMode\<close> for \<^verbatim>\<open>main\<close>.
\<close>

datatype error =
    IoError
  | CapacityExceeded nat
  | RandomnessUnavailable
  | NameTooLong
  | SaveFailed
  | InvalidSignature
  | UnsupportedVersion "16 word"
  | InvalidReserved
  | Usage
  | LoadFailed
  | UnknownMode

text \<open>
  What a run does to the image and to the file system, in order: a call of
  \<^verbatim>\<open>Image::encode\<close> (bytes, level, offset argument), of \<^verbatim>\<open>Image::decode\<close> (byte count,
  level, offset argument), of \<^verbatim>\<open>Image::save\<close> (path, and whether it succeeded), and
  the write of the recovered file.
\<close>

datatype event =
    ImgEncode "byte list" EncodingLevel "nat option"
  | ImgDecode nat EncodingLevel "nat option"
  | ImgSave string bool
  | FileWrite string "byte list"

record result =
  ret :: int
  err :: "error option"
  trace :: "event list"

text \<open>Undefined behaviour of the C++ program is a value of its own.\<close>

datatype fault = DivisionByZero | OutOfBounds

definition failed :: "error \<Rightarrow> event list \<Rightarrow> fault + result" where
  "failed e tr = Inr \<lparr> ret = - 1, err = Some e, trace = tr \<rparr>"

subsection \<open>\<^verbatim>\<open>encode\<close>\<close>

text \<open>\<^verbatim>\<open>fs::path(input).filename().string()\<close>: what follows the last separator.\<close>

definition filename :: "string \<Rightarrow> string" where
  "filename path = rev (takeWhile (\<lambda>c. c \<noteq> CHR ''/'') (rev path))"

text \<open>
  Lines 75 to 90: the header of a run. \<open>nm\<close> has at most 32 characters when
  \<^verbatim>\<open>encode\<close> gets here.
\<close>

definition make_header :: "EncodingLevel \<Rightarrow> 32 word \<Rightarrow> nat \<Rightarrow> string \<Rightarrow> Header" where
  "make_header lvl off padded_size nm =
     \<lparr> h_sig = signature,
       h_version = VERSION,
       h_level = of_nat (level_index lvl),
       h_flags = 0,
       h_offset = off,
       h_size = of_nat padded_size,
       h_name = map of_char nm @ replicate (32 - length nm) 0,
       h_reserved = replicate 12 0 \<rparr>"

text \<open>
  \<^verbatim>\<open>int encode(Image& image, const std::string& input, const std::string& output,
  Image::EncodingLevel level)\<close>, lines 33 to 104. The two \<^verbatim>\<open>return\<close> statements after
  \<^verbatim>\<open>image.save\<close> return \<^verbatim>\<open>false\<close> and \<^verbatim>\<open>true\<close> from a function of type \<^verbatim>\<open>int\<close>:
  0 and 1.
\<close>

definition encode :: "World \<Rightarrow> Image \<Rightarrow> string \<Rightarrow> string \<Rightarrow> EncodingLevel \<Rightarrow> fault + result" where
  "encode wd img input output lvl =
     (case file_contents wd input of
        None \<Rightarrow> failed IoError []
      | Some content \<Rightarrow>
          (let sz = length content;
               padded_size = padded_size_of sz;
               max_size = max_size_of (img_w img) (img_h img) lvl
           in if padded_size > max_size then failed (CapacityExceeded (max_size div 1024)) []
              else
                (let padded_data = padded_data_of content
                 in (case random_get wd of
                       None \<Rightarrow> failed RandomnessUnavailable []
                     | Some r \<Rightarrow>
                         (case offset_of r max_size padded_size lvl of
                            None \<Rightarrow> Inl DivisionByZero
                          | Some off \<Rightarrow>
                              (let nm = filename input
                               in if length nm > 32 then failed NameTooLong []
                                  else
                                    (let header = make_header lvl off padded_size nm;
                                         tr = [ImgEncode (header_bytes header) lvl None,
                                               ImgEncode padded_data lvl (Some (unat off))]
                                     in if \<not> image_save wd output
                                        then Inr \<lparr> ret = 0, err = Some SaveFailed,
                                                   trace = tr @ [ImgSave output False] \<rparr>
                                        else Inr \<lparr> ret = 1, err = None,
                                                   trace = tr @ [ImgSave output True] \<rparr>)))))))"

subsection \<open>\<^verbatim>\<open>decode\<close>\<close>

text \<open>Lines 113 to 128: the three checks of the header, in the order of the source.\<close>

definition validate_header :: "Header \<Rightarrow> error option" where
  "validate_header h =
     (if h_sig h \<noteq> signature then Some InvalidSignature
      else if h_version h \<noteq> VERSION then Some (UnsupportedVersion (h_version h))
      else if list_ex (\<lambda>r. r \<noteq> 0) (h_reserved h) then Some InvalidReserved
      else None)"

text \<open>
  Lines 130 to 134: the 32 name bytes when the last one is not zero, else the bytes
  before the first zero.
\<close>

definition name_of :: "Header \<Rightarrow> string" where
  "name_of h =
     (if last (h_name h) \<noteq> 0 then map (\<lambda>b. char_of (unat b)) (h_name h)
      else map (\<lambda>b. char_of (unat b)) (takeWhile (\<lambda>b. b \<noteq> 0) (h_name h)))"

text \<open>\<^verbatim>\<open>static_cast<Image::EncodingLevel>(header.level)\<close> for the three enumerators.\<close>

definition level_of :: "byte \<Rightarrow> EncodingLevel option" where
  "level_of b =
     (if b = 0 then Some Low else if b = 1 then Some Medium
      else if b = 2 then Some High else None)"

text \<open>
  \<^verbatim>\<open>int decode(Image& image, std::string output)\<close>, lines 106 to 158. Line 137 indexes
  the three-element \<^verbatim>\<open>level_to_str\<close> with \<^verbatim>\<open>header.level\<close>, and line 141 reads
  \<^verbatim>\<open>data[header.size - 1]\<close>: out of bounds for a level above 2 and for a size of 0.
\<close>

definition decode :: "World \<Rightarrow> Image \<Rightarrow> string \<Rightarrow> fault + result" where
  "decode wd img output =
     (let header_data = buffer sizeof_Header (img_decode img sizeof_Header Low None);
          header = header_of_bytes header_data;
          tr = [ImgDecode sizeof_Header Low None]
      in (case validate_header header of
            Some e \<Rightarrow> failed e tr
          | None \<Rightarrow>
              (let nm = name_of header
               in (case level_of (h_level header) of
                     None \<Rightarrow> Inl OutOfBounds
                   | Some lvl \<Rightarrow>
                       (let n = unat (h_size header);
                            off = unat (h_offset header);
                            data = buffer n (img_decode img n lvl (Some off));
                            tr' = tr @ [ImgDecode n lvl (Some off)]
                        in if n = 0 then Inl OutOfBounds
                           else
                             (let out = (if output = [] then nm else output)
                              in if \<not> file_writable wd out then failed IoError tr'
                                 else (case trim data of
                                         None \<Rightarrow> Inl OutOfBounds
                                       | Some raw \<Rightarrow>
                                           Inr \<lparr> ret = 0, err = None,
                                                 trace = tr' @ [FileWrite out raw] \<rparr>)))))))"

subsection \<open>\<^verbatim>\<open>main\<close>\<close>

text \<open>\<^verbatim>\<open>#define LEVEL Image::EncodingLevel::Low\<close>.\<close>

definition LEVEL :: EncodingLevel where
  "LEVEL = Low"

text \<open>
  The option loops of lines 170 to 175 and 189 to 193, over \<^verbatim>\<open>argv[2..]\<close>: an option
  takes the next argument as its value only when there is one.
\<close>

function (sequential) encode_args :: "string list \<Rightarrow> string \<times> string \<times> string \<Rightarrow> string \<times> string \<times> string" where
  "encode_args (a # b # rest) (inp, emb, out) =
     (if a = ''-i'' \<or> a = ''--input'' then encode_args rest (b, emb, out)
      else if a = ''-e'' \<or> a = ''--embed'' then encode_args rest (inp, b, out)
      else if a = ''-o'' \<or> a = ''--output'' then encode_args rest (inp, emb, b)
      else encode_args (b # rest) (inp, emb, out))"
| "encode_args [a] acc = acc"
| "encode_args [] acc = acc"
  by pat_completeness auto
termination
  by (relation "measure (\<lambda>(xs, acc). length xs)") simp_all

function (sequential) decode_args :: "string list \<Rightarrow> string \<times> string \<Rightarrow> string \<times> string" where
  "decode_args (a # b # rest) (inp, out) =
     (if a = ''-i'' \<or> a = ''--input'' then decode_args rest (b, out)
      else if a = ''-o'' \<or> a = ''--output'' then decode_args rest (inp, b)
      else decode_args (b # rest) (inp, out))"
| "decode_args [a] acc = acc"
| "decode_args [] acc = acc"
  by pat_completeness auto
termination
  by (relation "measure (\<lambda>(xs, acc). length xs)") simp_all

text \<open>\<^verbatim>\<open>int main(int argc, char** argv)\<close>, lines 160 to 209; \<open>argv\<close> includes \<^verbatim>\<open>argv[0]\<close>.\<close>

definition main :: "World \<Rightarrow> string list \<Rightarrow> fault + result" where
  "main wd argv =
     (if length argv < 2 then failed Usage []
      else
        let mode = argv ! 1
        in if mode = ''encode'' then
             (case encode_args (drop 2 argv) ([], [], []) of
                (input_img, embed_file, output_img) \<Rightarrow>
                  if input_img = [] \<or> embed_file = [] \<or> output_img = [] then failed Usage []
                  else (case image_load wd input_img of
                          None \<Rightarrow> failed LoadFailed []
                        | Some img \<Rightarrow> encode wd img embed_file output_img LEVEL))
           else if mode = ''decode'' then
             (case decode_args (drop 2 argv) ([], []) of
                (input_img, output_file) \<Rightarrow>
                  if input_img = [] \<or> output_file = [] then failed Usage []
                  else (case image_load wd input_img of
                          None \<Rightarrow> failed LoadFailed []
                        | Some img \<Rightarrow> decode wd img output_file))
           else failed UnknownMode [])"

text \<open>
  The exit status the parent process sees: the low 8 bits of what \<^verbatim>\<open>main\<close> returns,
  so \<^verbatim>\<open>-1\<close> is 255.
\<close>

definition exit_status :: "int \<Rightarrow> nat" where
  "exit_status r = nat (r mod 256)"

subsection \<open>Concrete runs\<close>

text \<open>
  The inputs at which the program is evaluated below: a file of ten bytes under
  \<^verbatim>\<open>docs/hello.txt\<close>, an image of \<open>w\<close> by \<open>h\<close> pixels under \<^verbatim>\<open>in.png\<close> whose pixels
  decode to zero bytes, a random draw \<open>r\<close>, and an \<^verbatim>\<open>Image::save\<close> that succeeds or not.
\<close>

definition hello :: "byte list" where
  "hello = map of_char ''hello9999!''"

definition blank :: "nat \<Rightarrow> nat \<Rightarrow> Image" where
  "blank w h = \<lparr> img_w = w, img_h = h, img_decode = (\<lambda>n lvl off i. 0) \<rparr>"

definition world_of :: "byte list \<Rightarrow> Image \<Rightarrow> 32 word \<Rightarrow> bool \<Rightarrow> World" where
  "world_of content img r ok =
     \<lparr> file_contents = (\<lambda>p. if p = ''docs/hello.txt'' then Some content else None),
       random_get = Some r,
       image_load = (\<lambda>p. if p = ''in.png'' then Some img else None),
       image_save = (\<lambda>p. ok),
       file_writable = (\<lambda>p. True) \<rparr>"

text \<open>
  An image that carries a well-formed header (level Low, offset 480, size 16, name
  \<^verbatim>\<open>x.bin\<close>) and a payload whose 16 bytes all have the value \<open>b\<close>.
\<close>

definition forged :: "byte \<Rightarrow> Image" where
  "forged b =
     \<lparr> img_w = 64, img_h = 64,
       img_decode = (\<lambda>n lvl off i.
          case off of
            None \<Rightarrow> header_bytes (make_header Low 480 16 ''x.bin'') ! i
          | Some k \<Rightarrow> b) \<rparr>"

text \<open>
  An image that carries what \<^verbatim>\<open>encode\<close> embeds for the ten-byte file at the level Low
  and the draw 7: the header at the default offset, the padded payload at offset 487.
\<close>

definition embedded :: Image where
  "embedded =
     \<lparr> img_w = 64, img_h = 64,
       img_decode = (\<lambda>n lvl off i.
          case off of
            None \<Rightarrow> header_bytes (make_header Low 487 16 ''hello.txt'') ! i
          | Some k \<Rightarrow> padded_data_of hello ! i) \<rparr>"

unbundle bit_operations_syntax

section \<open>Padding\<close>

lemma padded_size_of_mod: "padded_size_of n mod 16 = 0"
  by (simp add: padded_size_of_def)

lemma padded_size_of_lower: "n + 1 \<le> padded_size_of n"
  unfolding padded_size_of_def by presburger

lemma padded_size_of_upper: "padded_size_of n \<le> n + 16"
  unfolding padded_size_of_def by presburger

lemma unat_pad_left: "unat (pad_left n) = padded_size_of n - n"
proof -
  have "padded_size_of n - n \<le> 16" using padded_size_of_upper [of n] by simp
  then have "padded_size_of n - n < 2 ^ 8" by simp
  then show ?thesis
    unfolding pad_left_def by (simp add: unat_of_nat)
qed

lemma length_padded_data_of: "length (padded_data_of raw) = padded_size_of (length raw)"
  using padded_size_of_lower [of "length raw"]
  by (simp add: padded_data_of_def unat_pad_left)

lemma last_padded_data_of: "last (padded_data_of raw) = pad_left (length raw)"
proof -
  have "0 < unat (pad_left (length raw))"
    using padded_size_of_lower [of "length raw"] by (simp add: unat_pad_left)
  then show ?thesis by (simp add: padded_data_of_def)
qed

lemma trimmed_size_padded:
  assumes "padded_size_of n < 2 ^ 32"
  shows "trimmed_size (of_nat (padded_size_of n)) (pad_left n) = n"
proof -
  have le: "n \<le> padded_size_of n" using padded_size_of_lower [of n] by simp
  have "ucast (pad_left n) = (of_nat (unat (pad_left n)) :: 32 word)"
    by simp
  then have u: "ucast (pad_left n) = (of_nat (padded_size_of n - n) :: 32 word)"
    by (simp only: unat_pad_left)
  have "(of_nat (padded_size_of n) :: 32 word) - of_nat (padded_size_of n - n) = of_nat n"
    using le by simp
  moreover have "n < 2 ^ 32" using le assms by simp
  ultimately show ?thesis
    unfolding trimmed_size_def u by (simp add: unat_of_nat)
qed

lemma trim_padded_data_of:
  assumes "padded_size_of (length raw) < 2 ^ 32"
  shows "trim (padded_data_of raw) = Some raw"
proof -
  have ne: "padded_data_of raw \<noteq> []"
    using length_padded_data_of [of raw] padded_size_of_lower [of "length raw"] by auto
  have le: "length raw \<le> padded_size_of (length raw)"
    using padded_size_of_lower [of "length raw"] by simp
  have tk: "take (length raw) (padded_data_of raw) = raw"
    by (simp add: padded_data_of_def)
  show ?thesis
    unfolding trim_def
    using ne le tk
    by (simp add: Let_def length_padded_data_of last_padded_data_of
        trimmed_size_padded [OF assms])
qed

lemma drop_padded_data_of:
  "drop (length raw) (padded_data_of raw)
     = replicate (padded_size_of (length raw) - length raw)
         (of_nat (padded_size_of (length raw) - length raw))"
  by (simp add: padded_data_of_def unat_pad_left) (simp add: pad_left_def)

section \<open>Capacity, offset and the result of \<^verbatim>\<open>encode\<close>\<close>

lemma encoded_size_Low: "encoded_size n Low = n * 8"
  by (simp add: encoded_size_def)

lemma encoded_size_Medium: "encoded_size n Medium = n * 4"
  by (simp add: encoded_size_def)

lemma length_hello: "length hello = 10"
  by (simp add: hello_def)

lemma padded_size_of_10: "padded_size_of 10 = 16"
  by (simp add: padded_size_of_def)

lemma filename_hello: "filename ''docs/hello.txt'' = ''hello.txt''"
  by (simp add: filename_def)

lemma max_size_of_64_Low: "max_size_of 64 64 Low = 1568"
  by (simp add: max_size_of_def encoded_size_Low sizeof_Header_def)

lemma max_size_of_64_Medium: "max_size_of 64 64 Medium = 3616"
  by (simp add: max_size_of_def encoded_size_Low encoded_size_Medium sizeof_Header_def)

lemma max_size_of_8_Low: "max_size_of 8 8 Low = 4294966848"
  by (simp add: max_size_of_def encoded_size_Low sizeof_Header_def)

lemma max_size_of_31_32_Low: "max_size_of 31 32 Low = 16"
  by (simp add: max_size_of_def encoded_size_Low sizeof_Header_def)

text \<open>
  C1. The claim: whatever the random draw, the offset of the payload lies after the
  slots of the header and the payload fits. The code at the draw 11936, for the
  ten-byte file and an image of 64 by 64 pixels at the level Low: the header takes
  the 480 slots from slot 0, the sum \<open>11936 + 480\<close> is the modulus
  \<open>encoded_size (1568 - 16) Low = 12416\<close>, and the payload is embedded at offset 0, where
  the header was embedded by the call before.
\<close>

theorem encode_offset_zero:
  "encode (world_of hello (blank 64 64) 11936 True) (blank 64 64)
       ''docs/hello.txt'' ''out.png'' Low
     = Inr \<lparr> ret = 1, err = None,
          trace = [ImgEncode (header_bytes (make_header Low 0 16 ''hello.txt'')) Low None,
                   ImgEncode (padded_data_of hello) Low (Some 0),
                   ImgSave ''out.png'' True] \<rparr>
   \<and> encoded_size sizeof_Header Low = 480"
  by (simp add: encode_def world_of_def blank_def length_hello padded_size_of_10
      max_size_of_64_Low offset_of_def encoded_size_Low sizeof_Header_def filename_hello Let_def)

text \<open>
  C2. The claim: the header is embedded with the level Low whatever the level of the
  payload. The code at the level Medium: the call of \<^verbatim>\<open>Image::encode\<close> for the header
  (line 92) is made with the level of the payload, Medium, while \<^verbatim>\<open>decode\<close> reads the
  header with Low (line 109).
\<close>

theorem encode_header_level_Medium:
  "encode (world_of hello (blank 64 64) 7 True) (blank 64 64)
       ''docs/hello.txt'' ''out.png'' Medium
     = Inr \<lparr> ret = 1, err = None,
          trace = [ImgEncode (header_bytes (make_header Medium 487 16 ''hello.txt'')) Medium None,
                   ImgEncode (padded_data_of hello) Medium (Some 487),
                   ImgSave ''out.png'' True] \<rparr>"
  by (simp add: encode_def world_of_def blank_def length_hello padded_size_of_10
      max_size_of_64_Medium offset_of_def encoded_size_Low encoded_size_Medium
      sizeof_Header_def filename_hello Let_def)

text \<open>
  C5. The claim: an image too small for one header has the maximum capacity 0. The
  code for an image of 8 by 8 pixels at Low: \<open>8 * 8 * 4 div 8 = 32\<close> bytes, less the 480
  slots of the header, stored in an \<^verbatim>\<open>unsigned int\<close>: \<open>2 ^ 32 - 448\<close>. The capacity
  check then lets the ten-byte file through and \<^verbatim>\<open>encode\<close> embeds it.
\<close>

theorem max_size_wraps_around:
  "max_size_of 8 8 Low = 4294966848
   \<and> encode (world_of hello (blank 8 8) 7 True) (blank 8 8)
         ''docs/hello.txt'' ''out.png'' Low
       = Inr \<lparr> ret = 1, err = None,
            trace = [ImgEncode (header_bytes (make_header Low 487 16 ''hello.txt'')) Low None,
                     ImgEncode (padded_data_of hello) Low (Some 487),
                     ImgSave ''out.png'' True] \<rparr>"
  by (simp add: encode_def world_of_def blank_def length_hello padded_size_of_10
      max_size_of_8_Low offset_of_def encoded_size_Low sizeof_Header_def filename_hello Let_def)

text \<open>
  C6. When the padded size of the file is above the computed maximum, \<^verbatim>\<open>encode\<close>
  returns \<^verbatim>\<open>-1\<close> with the diagnostic that carries the maximum (in KiB, as line 54 prints
  it), and it has called neither \<^verbatim>\<open>Image::encode\<close> nor \<^verbatim>\<open>Image::save\<close>: nothing is
  embedded, truncated or not, and no output is written.
\<close>

theorem encode_capacity_exceeded:
  assumes "file_contents wd input = Some content"
    and "padded_size_of (length content) > max_size_of (img_w img) (img_h img) lvl"
  shows "encode wd img input output lvl
     = Inr \<lparr> ret = - 1,
          err = Some (CapacityExceeded (max_size_of (img_w img) (img_h img) lvl div 1024)),
          trace = [] \<rparr>"
  using assms by (simp add: encode_def failed_def Let_def)

theorem encode_capacity_exceeded_witness:
  "encode (world_of (replicate 2000 0) (blank 64 64) 7 True) (blank 64 64)
       ''docs/hello.txt'' ''out.png'' Low
     = Inr \<lparr> ret = - 1, err = Some (CapacityExceeded 1), trace = [] \<rparr>"
proof -
  have f: "file_contents (world_of (replicate 2000 0) (blank 64 64) 7 True) ''docs/hello.txt''
      = Some (replicate 2000 0)"
    by (simp add: world_of_def)
  have "padded_size_of (length (replicate 2000 (0 :: byte))) = 2016"
    by (simp add: padded_size_of_def)
  then have c: "padded_size_of (length (replicate 2000 (0 :: byte)))
      > max_size_of (img_w (blank 64 64)) (img_h (blank 64 64)) Low"
    by (simp add: blank_def max_size_of_64_Low)
  show ?thesis
    using encode_capacity_exceeded [OF f c, of "''out.png''"]
    by (simp add: blank_def max_size_of_64_Low)
qed

text \<open>
  C10. The claim: after the capacity check the modulus of line 73 is not zero. The code
  for an image of 31 by 32 pixels at Low, whose maximum is 16 bytes, and the ten-byte
  file, whose padded size is 16: the check \<^verbatim>\<open>padded_size > max_size\<close> lets the equal
  sizes through, the modulus is \<open>encoded_size 0 Low = 0\<close>, and line 73 takes a remainder
  by zero.
\<close>

theorem encode_modulus_zero:
  "max_size_of 31 32 Low = 16 \<and> padded_size_of (length hello) = 16
   \<and> encoded_size (16 - 16) Low = 0
   \<and> encode (world_of hello (blank 31 32) 7 True) (blank 31 32)
         ''docs/hello.txt'' ''out.png'' Low
       = Inl DivisionByZero"
  by (simp add: encode_def world_of_def blank_def length_hello padded_size_of_10
      max_size_of_31_32_Low offset_of_def encoded_size_Low sizeof_Header_def filename_hello Let_def)

section \<open>The exit status\<close>

text \<open>
  C9. The claim: the exit status is 0 exactly when the operation succeeds. The code
  for \<^verbatim>\<open>steganography encode -i in.png -e docs/hello.txt -o out.png\<close>: when the image
  is saved, \<^verbatim>\<open>encode\<close> returns \<^verbatim>\<open>true\<close> and the exit status is 1; when
  \<^verbatim>\<open>Image::save\<close> fails, it returns \<^verbatim>\<open>false\<close> and the exit status is 0.
\<close>

theorem main_encode_exit_status:
  "map_sum id (\<lambda>r. (exit_status (ret r), err r, last (trace r)))
       (main (world_of hello (blank 64 64) 7 True)
          [''steganography'', ''encode'', ''-i'', ''in.png'', ''-e'', ''docs/hello.txt'',
           ''-o'', ''out.png''])
     = Inr (1, None, ImgSave ''out.png'' True)
   \<and> map_sum id (\<lambda>r. (exit_status (ret r), err r, last (trace r)))
       (main (world_of hello (blank 64 64) 7 False)
          [''steganography'', ''encode'', ''-i'', ''in.png'', ''-e'', ''docs/hello.txt'',
           ''-o'', ''out.png''])
     = Inr (0, Some SaveFailed, ImgSave ''out.png'' False)"
  by (simp add: main_def LEVEL_def encode_def world_of_def blank_def length_hello
      padded_size_of_10 max_size_of_64_Low offset_of_def encoded_size_Low sizeof_Header_def
      filename_hello exit_status_def Let_def)

section \<open>The header\<close>

lemma length_le16: "length (le16 v) = 2"
  by (simp add: le16_def)

lemma length_le32: "length (le32 v) = 4"
  by (simp add: le32_def)

lemma length_signature: "length signature = 4"
  by (simp add: signature_def)

lemma length_header_bytes_make_header:
  "length nm \<le> 32 \<Longrightarrow> length (header_bytes (make_header lvl off padded_size nm)) = 60"
  by (simp add: header_bytes_def make_header_def length_le16 length_le32 length_signature)

text \<open>
  C8, as the claim states it: the serialized header has 56 bytes. The members of
  \<^verbatim>\<open>struct Header\<close> add up to 60, and so do the bytes \<^verbatim>\<open>encode\<close> hands to
  \<^verbatim>\<open>Image::encode\<close>.
\<close>

theorem header_size_not_56:
  "sizeof_Header \<noteq> 56
   \<and> length (header_bytes (make_header Low 0 16 ''hello.txt'')) \<noteq> 56"
  by (simp add: length_header_bytes_make_header sizeof_Header_def)

text \<open>
  C8, amended. The header that \<^verbatim>\<open>encode\<close> serializes into the image is a record of
  60 bytes: the 4 bytes of the signature, 2 of the version, 1 of the level, 1 of the
  flags, 4 of the payload offset, 4 of the padded payload size, 32 of the name (the name
  and then zeros) and 12 reserved bytes, in this order.
\<close>

theorem header_layout:
  assumes "length nm \<le> 32"
  shows "header_bytes (make_header lvl off padded_size nm)
       = signature @ le16 VERSION @ [of_nat (level_index lvl)] @ [0] @ le32 off
         @ le32 (of_nat padded_size) @ (map of_char nm @ replicate (32 - length nm) 0)
         @ replicate 12 0
     \<and> length signature = 4 \<and> length (le16 VERSION) = 2 \<and> length (le32 off) = 4
     \<and> length (le32 (of_nat padded_size :: 32 word)) = 4
     \<and> length (map of_char nm @ replicate (32 - length nm) (0 :: byte)) = 32
     \<and> length (replicate 12 (0 :: byte)) = 12
     \<and> length (header_bytes (make_header lvl off padded_size nm)) = 60
     \<and> sizeof_Header = 60"
  using assms
  by (simp add: header_bytes_def make_header_def length_le16 length_le32 length_signature
      sizeof_Header_def)

theorem header_layout_witness:
  "length (header_bytes (make_header Low 0 16 ''hello.txt'')) = 60 \<and> sizeof_Header = 60"
  using header_layout [of "''hello.txt''" Low 0 16] by simp

section \<open>\<^verbatim>\<open>decode\<close>\<close>

lemma length_buffer: "length (buffer n f) = n"
  by (simp add: buffer_def)

lemma buffer_const: "buffer n (\<lambda>i. c) = replicate n c"
  by (simp add: buffer_def map_replicate_const)

lemma buffer_nth: "length bs = n \<Longrightarrow> buffer n (\<lambda>i. bs ! i) = bs"
  by (auto simp: buffer_def intro: nth_equalityI)

text \<open>
  C7. \<^verbatim>\<open>decode\<close> reads the header with the level Low and checks that the four
  signature bytes are \<^verbatim>\<open>HIDE\<close>, that the version is \<^verbatim>\<open>VERSION\<close>, and that no reserved
  byte is nonzero. The header fails one of the three checks exactly when \<^verbatim>\<open>decode\<close>
  returns \<^verbatim>\<open>-1\<close> with a diagnostic after the one call of \<^verbatim>\<open>Image::decode\<close> that read
  the header: the payload has not been decoded and no file has been written.
\<close>

theorem decode_header_validation:
  assumes "h = header_of_bytes (buffer sizeof_Header (img_decode img sizeof_Header Low None))"
  shows "(h_sig h \<noteq> signature \<or> h_version h \<noteq> VERSION
            \<or> list_ex (\<lambda>r. r \<noteq> 0) (h_reserved h))
     = (\<exists>e. decode wd img output
            = Inr \<lparr> ret = - 1, err = Some e, trace = [ImgDecode sizeof_Header Low None] \<rparr>)"
proof (cases "validate_header h")
  case None
  then have ok: "h_sig h = signature \<and> h_version h = VERSION
      \<and> \<not> list_ex (\<lambda>r. r \<noteq> 0) (h_reserved h)"
    by (auto simp: validate_header_def split: if_splits)
  have "\<And>e. decode wd img output
            \<noteq> Inr \<lparr> ret = - 1, err = Some e, trace = [ImgDecode sizeof_Header Low None] \<rparr>"
    using None assms [symmetric]
    by (auto simp: decode_def Let_def failed_def split: option.splits)
  with ok show ?thesis by blast
next
  case (Some e)
  then have bad: "h_sig h \<noteq> signature \<or> h_version h \<noteq> VERSION
      \<or> list_ex (\<lambda>r. r \<noteq> 0) (h_reserved h)"
    by (auto simp: validate_header_def split: if_splits)
  have "decode wd img output
            = Inr \<lparr> ret = - 1, err = Some e, trace = [ImgDecode sizeof_Header Low None] \<rparr>"
    using Some assms [symmetric] by (simp add: decode_def Let_def failed_def)
  with bad show ?thesis by blast
qed

lemma blank_signature:
  "h_sig (header_of_bytes (buffer sizeof_Header (img_decode (blank 8 8) sizeof_Header Low None)))
     \<noteq> signature"
  by code_simp

theorem decode_header_validation_witness:
  "h_sig (header_of_bytes (buffer sizeof_Header (img_decode (blank 8 8) sizeof_Header Low None)))
      \<noteq> signature
   \<and> (\<exists>e. decode (world_of hello (blank 8 8) 7 True) (blank 8 8) ''out.bin''
            = Inr \<lparr> ret = - 1, err = Some e, trace = [ImgDecode sizeof_Header Low None] \<rparr>)"
  using blank_signature
    decode_header_validation [OF refl, of "blank 8 8" "world_of hello (blank 8 8) 7 True"
      "''out.bin''"]
  by blast

subsection \<open>The trim of the padding\<close>

lemma unat_ucast_byte: "unat (ucast (b :: byte) :: 32 word) = unat b"
proof -
  have "unat b < 2 ^ 8" using unsigned_less [of b] by simp
  then have "unat b < 2 ^ 32" by simp
  then show ?thesis by (simp add: unsigned_ucast_eq take_bit_nat_eq_self)
qed

lemma trimmed_size_le:
  assumes "unat left \<le> unat hsize"
  shows "trimmed_size hsize left = unat hsize - unat left"
proof -
  have "ucast left \<le> hsize"
    using assms by (simp add: word_le_nat_alt unat_ucast_byte)
  then show ?thesis
    by (simp add: trimmed_size_def unat_sub unat_ucast_byte)
qed

lemma trim_general:
  assumes "data \<noteq> []" and "length data < 2 ^ 32" and "unat (last data) \<le> length data"
  shows "trim data = Some (take (length data - unat (last data)) data)"
proof -
  have u: "unat (of_nat (length data) :: 32 word) = length data"
    using assms(2) by (simp add: unat_of_nat)
  have "trimmed_size (of_nat (length data)) (last data) = length data - unat (last data)"
    using assms(3) by (simp add: trimmed_size_le u)
  then show ?thesis using assms(1) by (simp add: trim_def Let_def)
qed

lemma decode_writes:
  assumes h: "h = header_of_bytes (buffer sizeof_Header (img_decode img sizeof_Header Low None))"
    and v: "validate_header h = None"
    and l: "level_of (h_level h) = Some lvl"
    and n: "unat (h_size h) \<noteq> 0"
    and d: "data = buffer (unat (h_size h))
               (img_decode img (unat (h_size h)) lvl (Some (unat (h_offset h))))"
    and t: "trim data = Some raw"
    and out: "out = (if outp = [] then name_of h else outp)"
    and w: "file_writable wd out"
  shows "decode wd img outp
     = Inr \<lparr> ret = 0, err = None,
          trace = [ImgDecode sizeof_Header Low None,
                   ImgDecode (unat (h_size h)) lvl (Some (unat (h_offset h))),
                   FileWrite out raw] \<rparr>"
proof -
  from t d have t': "trim (buffer (unat (h_size h))
      (img_decode img (unat (h_size h)) lvl (Some (unat (h_offset h))))) = Some raw"
    by simp
  show ?thesis
    using v l n t' w
    unfolding decode_def Let_def h [symmetric] out [symmetric]
    by simp
qed

lemma forged_header:
  "header_of_bytes (buffer sizeof_Header (img_decode (forged b) sizeof_Header Low None))
     = make_header Low 480 16 ''x.bin''"
proof -
  have l: "length (header_bytes (make_header Low 480 16 ''x.bin'')) = sizeof_Header"
    by (simp add: length_header_bytes_make_header sizeof_Header_def)
  have "buffer sizeof_Header (img_decode (forged b) sizeof_Header Low None)
      = header_bytes (make_header Low 480 16 ''x.bin'')"
    using buffer_nth [OF l] by (simp add: forged_def)
  moreover have "header_of_bytes (header_bytes (make_header Low 480 16 ''x.bin''))
      = make_header Low 480 16 ''x.bin''"
    by code_simp
  ultimately show ?thesis by simp
qed

lemma forged_valid: "validate_header (make_header Low 480 16 ''x.bin'') = None"
  by code_simp

lemma forged_payload:
  "buffer 16 (img_decode (forged b) 16 Low (Some 480)) = replicate 16 b"
  by (simp add: forged_def buffer_const)

lemma forged_fields:
  "level_of (h_level (make_header Low 480 16 ''x.bin'')) = Some Low"
  "unat (h_size (make_header Low 480 16 ''x.bin'')) = 16"
  "unat (h_offset (make_header Low 480 16 ''x.bin'')) = 480"
  by (simp_all add: make_header_def level_of_def)

text \<open>
  C4, as the claim states it: \<^verbatim>\<open>decode\<close> fails with a padding error, and writes no
  output, when the last byte of the payload is 0. The code for an image with a
  well-formed header and a payload of 16 zero bytes: \<^verbatim>\<open>left\<close> is 0, the 16 bytes are
  written to the output and \<^verbatim>\<open>decode\<close> returns 0.
\<close>

theorem decode_zero_pad_succeeds:
  "last (buffer 16 (img_decode (forged 0) 16 Low (Some 480))) = 0
   \<and> decode (world_of hello (forged 0) 7 True) (forged 0) ''out.bin''
     = Inr \<lparr> ret = 0, err = None,
          trace = [ImgDecode sizeof_Header Low None, ImgDecode 16 Low (Some 480),
                   FileWrite ''out.bin'' (replicate 16 0)] \<rparr>"
proof -
  have t: "trim (replicate 16 (0 :: byte)) = Some (replicate 16 0)"
    by code_simp
  have w: "file_writable (world_of hello (forged 0) 7 True) ''out.bin''"
    by (simp add: world_of_def)
  have "decode (world_of hello (forged 0) 7 True) (forged 0) ''out.bin''
     = Inr \<lparr> ret = 0, err = None,
          trace = [ImgDecode sizeof_Header Low None, ImgDecode 16 Low (Some 480),
                   FileWrite ''out.bin'' (replicate 16 0)] \<rparr>"
    using decode_writes [where img = "forged 0" and outp = "''out.bin''"
        and out = "''out.bin''" and wd = "world_of hello (forged 0) 7 True" and lvl = Low
        and raw = "replicate 16 0",
        OF forged_header [symmetric] forged_valid forged_fields(1) _ refl _ _ w]
    by (simp add: forged_fields forged_payload t)
  then show ?thesis by (simp add: forged_payload)
qed

text \<open>
  C4, amended. \<^verbatim>\<open>decode\<close> reads the last byte of the payload as the pad length \<open>p\<close>
  and checks nothing about it. For a header that passes validation, a payload of at
  least one byte, an output file that opens, and \<open>p\<close> at most the length of the payload
  (\<open>p = 0\<close> included), \<^verbatim>\<open>decode\<close> writes the payload without its last \<open>p\<close> bytes and
  returns 0.
\<close>

theorem decode_strips_padding:
  assumes h: "h = header_of_bytes (buffer sizeof_Header (img_decode img sizeof_Header Low None))"
    and v: "validate_header h = None"
    and l: "level_of (h_level h) = Some lvl"
    and d: "data = buffer (unat (h_size h))
               (img_decode img (unat (h_size h)) lvl (Some (unat (h_offset h))))"
    and n: "data \<noteq> []"
    and p: "unat (last data) \<le> length data"
    and out: "out = (if output = [] then name_of h else output)"
    and w: "file_writable wd out"
  shows "decode wd img output
     = Inr \<lparr> ret = 0, err = None,
          trace = [ImgDecode sizeof_Header Low None,
                   ImgDecode (unat (h_size h)) lvl (Some (unat (h_offset h))),
                   FileWrite out (take (length data - unat (last data)) data)] \<rparr>"
proof -
  have len: "length data = unat (h_size h)"
    by (simp add: d length_buffer)
  have "unat (h_size h) < 2 ^ 32"
    using unsigned_less [of "h_size h"] by simp
  then have lt: "length data < 2 ^ 32" by (simp add: len)
  have t: "trim data = Some (take (length data - unat (last data)) data)"
    by (rule trim_general [OF n lt p])
  have "length data \<noteq> 0" using n by simp
  then have nz: "unat (h_size h) \<noteq> 0"
    using len by simp
  show ?thesis
    by (rule decode_writes [OF h v l nz d t out w])
qed

theorem decode_strips_padding_witness:
  "decode (world_of hello (forged 5) 7 True) (forged 5) ''out.bin''
     = Inr \<lparr> ret = 0, err = None,
          trace = [ImgDecode sizeof_Header Low None, ImgDecode 16 Low (Some 480),
                   FileWrite ''out.bin'' (replicate 11 5)] \<rparr>"
proof -
  have w: "file_writable (world_of hello (forged 5) 7 True) ''out.bin''"
    by (simp add: world_of_def)
  have d: "replicate 16 (5 :: byte)
      = buffer (unat (h_size (make_header Low 480 16 ''x.bin'')))
          (img_decode (forged 5) (unat (h_size (make_header Low 480 16 ''x.bin''))) Low
             (Some (unat (h_offset (make_header Low 480 16 ''x.bin'')))))"
    by (simp add: forged_fields forged_payload)
  have n: "replicate 16 (5 :: byte) \<noteq> []" by simp
  have p: "unat (last (replicate 16 (5 :: byte))) \<le> length (replicate 16 (5 :: byte))"
    by simp
  have o: "''out.bin''
      = (if ''out.bin'' = [] then name_of (make_header Low 480 16 ''x.bin'') else ''out.bin'')"
    by simp
  show ?thesis
    using decode_strips_padding
      [OF forged_header [symmetric] forged_valid forged_fields(1) d n p o w]
    by (simp add: forged_fields)
qed

section \<open>The padding, from \<^verbatim>\<open>encode\<close> to \<^verbatim>\<open>decode\<close>\<close>

lemma rd32_or:
  fixes a b c d :: byte
  shows "(ucast a :: 32 word) + push_bit 8 (ucast b) + push_bit 16 (ucast c)
       + push_bit 24 (ucast d)
    = ((ucast a OR push_bit 8 (ucast b)) OR push_bit 16 (ucast c)) OR push_bit 24 (ucast d)"
proof -
  have 1: "(ucast a :: 32 word) + push_bit 8 (ucast b) = ucast a OR push_bit 8 (ucast b)"
    by (rule disjunctive_add_eq_or) (auto simp: bit_eq_iff bit_simps dest: bit_imp_le_length)
  have 2: "((ucast a OR push_bit 8 (ucast b)) :: 32 word) + push_bit 16 (ucast c)
      = (ucast a OR push_bit 8 (ucast b)) OR push_bit 16 (ucast c)"
    by (rule disjunctive_add_eq_or) (auto simp: bit_eq_iff bit_simps dest: bit_imp_le_length)
  have 3: "(((ucast a OR push_bit 8 (ucast b)) OR push_bit 16 (ucast c)) :: 32 word)
        + push_bit 24 (ucast d)
      = ((ucast a OR push_bit 8 (ucast b)) OR push_bit 16 (ucast c)) OR push_bit 24 (ucast d)"
    by (rule disjunctive_add_eq_or) (auto simp: bit_eq_iff bit_simps dest: bit_imp_le_length)
  show ?thesis by (simp only: 1 2 3)
qed

lemma rd32_le32: "rd32 (le32 v) = v"
proof -
  have "((ucast (ucast v :: byte) OR push_bit 8 (ucast (ucast (drop_bit 8 v) :: byte)))
          OR push_bit 16 (ucast (ucast (drop_bit 16 v) :: byte)))
          OR push_bit 24 (ucast (ucast (drop_bit 24 v) :: byte)) = v" (is "?w = v")
  proof (rule bit_eqI)
    fix n
    assume "possible_bit TYPE(32 word) n"
    then have n: "n < 32" by simp
    consider "n < 8" | "8 \<le> n" "n < 16" | "16 \<le> n" "n < 24" | "24 \<le> n"
      by linarith
    then show "bit ?w n = bit v n"
      using n by cases (auto simp: bit_simps)
  qed
  then show ?thesis
    unfolding rd32_def le32_def by (simp add: rd32_or del: push_bit_eq_mult)
qed

lemma rd16_le16: "rd16 (le16 v) = v"
proof -
  have o: "(ucast (ucast v :: byte) :: 16 word) + push_bit 8 (ucast (ucast (drop_bit 8 v) :: byte))
      = ucast (ucast v :: byte) OR push_bit 8 (ucast (ucast (drop_bit 8 v) :: byte))"
    by (rule disjunctive_add_eq_or) (auto simp: bit_eq_iff bit_simps dest: bit_imp_le_length)
  have "ucast (ucast v :: byte) OR push_bit 8 (ucast (ucast (drop_bit 8 v) :: byte)) = v"
    (is "?w = v")
  proof (rule bit_eqI)
    fix n
    assume "possible_bit TYPE(16 word) n"
    then have n: "n < 16" by simp
    consider "n < 8" | "8 \<le> n"
      by linarith
    then show "bit ?w n = bit v n"
      using n by cases (auto simp: bit_simps)
  qed
  then show ?thesis
    unfolding rd16_def le16_def by (simp add: o del: push_bit_eq_mult)
qed

lemma header_of_bytes_header_bytes:
  assumes "length (h_sig h) = 4" and "length (h_name h) = 32" and "length (h_reserved h) = 12"
  shows "header_of_bytes (header_bytes h) = h"
  using assms
  by (simp add: header_of_bytes_def header_bytes_def length_le16 length_le32 rd16_le16
      rd32_le32 nth_append)

lemma make_header_roundtrip:
  assumes "length nm \<le> 32"
  shows "header_of_bytes (header_bytes (make_header lvl off ps nm)) = make_header lvl off ps nm"
  using assms
  by (intro header_of_bytes_header_bytes) (simp_all add: make_header_def length_signature)

lemma validate_make_header: "validate_header (make_header lvl off ps nm) = None"
  by (simp add: validate_header_def make_header_def list_ex_iff)

lemma level_of_make_header: "level_of (h_level (make_header lvl off ps nm)) = Some lvl"
  by (cases lvl) (simp_all add: make_header_def level_of_def)

lemma max_size_of_less: "max_size_of w h lvl < 2 ^ 32"
  by (simp add: max_size_of_def nat_less_iff)

lemma encode_trace:
  assumes "file_contents wd input = Some content"
    and "encode wd img input output lvl = Inr r"
    and "trace r \<noteq> []"
  shows "\<exists>off sv. trace r
        = [ImgEncode (header_bytes (make_header lvl off (padded_size_of (length content))
              (filename input))) lvl None,
           ImgEncode (padded_data_of content) lvl (Some (unat off)),
           ImgSave output sv]
      \<and> padded_size_of (length content) \<le> max_size_of (img_w img) (img_h img) lvl
      \<and> length (filename input) \<le> 32"
  using assms
  by (fastforce simp: encode_def Let_def failed_def split: option.splits if_splits)

lemma encode_hello_7:
  "encode (world_of hello (blank 64 64) 7 True) (blank 64 64) ''docs/hello.txt'' ''out.png'' Low
     = Inr \<lparr> ret = 1, err = None,
          trace = [ImgEncode (header_bytes (make_header Low 487 16 ''hello.txt'')) Low None,
                   ImgEncode (padded_data_of hello) Low (Some 487),
                   ImgSave ''out.png'' True] \<rparr>"
  by (simp add: encode_def world_of_def blank_def length_hello padded_size_of_10
      max_size_of_64_Low offset_of_def encoded_size_Low sizeof_Header_def filename_hello Let_def)

lemma embedded_header:
  "buffer sizeof_Header (img_decode embedded sizeof_Header Low None)
     = header_bytes (make_header Low 487 16 ''hello.txt'')"
proof -
  have l: "length (header_bytes (make_header Low 487 16 ''hello.txt'')) = sizeof_Header"
    by (simp add: length_header_bytes_make_header sizeof_Header_def)
  show ?thesis
    using buffer_nth [OF l] by (simp add: embedded_def)
qed

lemma embedded_payload:
  "buffer (length (padded_data_of hello))
       (img_decode embedded (length (padded_data_of hello)) Low (Some 487))
     = padded_data_of hello"
  using buffer_nth [OF refl, of "padded_data_of hello"] by (simp add: embedded_def)

text \<open>
  C3. Whenever \<^verbatim>\<open>encode\<close> gets to embedding a file of \<open>n\<close> bytes, the payload \<open>pd\<close> that
  it hands to \<^verbatim>\<open>Image::encode\<close> has a length that is a multiple of 16 and at least
  \<open>n + 1\<close>; the pad length (the length of \<open>pd\<close> less \<open>n\<close>) is between 1 and 16; \<open>pd\<close>
  is the file followed by pad bytes that all have the pad length as their value. And
  when \<^verbatim>\<open>decode\<close> runs on an image that gives back the header bytes and the payload
  of that run of \<^verbatim>\<open>encode\<close>, its trim (last byte read as pad length, that many bytes
  dropped) leaves exactly the \<open>n\<close> bytes of the file, which are what \<^verbatim>\<open>decode\<close> writes.
\<close>

theorem padding_roundtrip:
  assumes fc: "file_contents wd input = Some content"
    and enc: "encode wd img input output lvl = Inr r"
    and tr: "trace r = [ImgEncode hb l1 o1, ImgEncode pd l2 o2, sv]"
  shows "length pd mod 16 = 0
     \<and> length content + 1 \<le> length pd
     \<and> 1 \<le> length pd - length content
     \<and> length pd - length content \<le> 16
     \<and> pd = content @ replicate (length pd - length content)
                       (of_nat (length pd - length content))
     \<and> (buffer sizeof_Header (img_decode img' sizeof_Header Low None) = hb
        \<and> buffer (length pd) (img_decode img' (length pd) l2 o2) = pd
        \<and> file_writable wd' (if outp = [] then name_of (header_of_bytes hb) else outp)
        \<longrightarrow> decode wd' img' outp
            = Inr \<lparr> ret = 0, err = None,
                 trace = [ImgDecode sizeof_Header Low None, ImgDecode (length pd) l2 o2,
                          FileWrite (if outp = [] then name_of (header_of_bytes hb) else outp)
                            content] \<rparr>)"
proof -
  let ?n = "length content"
  let ?ps = "padded_size_of ?n"
  from tr have "trace r \<noteq> []" by simp
  from encode_trace [OF fc enc this] tr
  obtain off where hb: "hb = header_bytes (make_header lvl off ?ps (filename input))"
    and pd: "pd = padded_data_of content" and l2: "l2 = lvl" and o2: "o2 = Some (unat off)"
    and cap: "?ps \<le> max_size_of (img_w img) (img_h img) lvl"
    and nm: "length (filename input) \<le> 32"
    by auto
  have len: "length pd = ?ps" by (simp add: pd length_padded_data_of)
  have lo: "?n + 1 \<le> ?ps" by (rule padded_size_of_lower)
  have hi: "?ps \<le> ?n + 16" by (rule padded_size_of_upper)
  have m: "?ps mod 16 = 0" by (rule padded_size_of_mod)
  have lt: "?ps < 2 ^ 32" using cap max_size_of_less [of "img_w img" "img_h img" lvl] by simp
  have app: "pd = content @ replicate (?ps - ?n) (of_nat (?ps - ?n))"
    by (simp add: pd padded_data_of_def unat_pad_left) (simp add: pad_left_def)
  have dec: "decode wd' img' outp
            = Inr \<lparr> ret = 0, err = None,
                 trace = [ImgDecode sizeof_Header Low None, ImgDecode (length pd) l2 o2,
                          FileWrite (if outp = [] then name_of (header_of_bytes hb) else outp)
                            content] \<rparr>"
    if b1: "buffer sizeof_Header (img_decode img' sizeof_Header Low None) = hb"
      and b2: "buffer (length pd) (img_decode img' (length pd) l2 o2) = pd"
      and w: "file_writable wd' (if outp = [] then name_of (header_of_bytes hb) else outp)"
  proof -
    let ?h = "make_header lvl off ?ps (filename input)"
    have h: "?h = header_of_bytes (buffer sizeof_Header (img_decode img' sizeof_Header Low None))"
      by (simp add: b1 hb make_header_roundtrip [OF nm])
    have hh: "header_of_bytes hb = ?h"
      by (simp add: hb make_header_roundtrip [OF nm])
    have sz: "unat (h_size ?h) = ?ps"
      using lt by (simp add: make_header_def unat_of_nat)
    have ofs: "unat (h_offset ?h) = unat off"
      by (simp add: make_header_def)
    have nz: "unat (h_size ?h) \<noteq> 0" using lo sz by simp
    have d: "pd = buffer (unat (h_size ?h))
               (img_decode img' (unat (h_size ?h)) lvl (Some (unat (h_offset ?h))))"
      using b2 by (simp add: sz ofs len l2 o2)
    have t: "trim pd = Some content"
      unfolding pd by (rule trim_padded_data_of [OF lt])
    have out: "(if outp = [] then name_of (header_of_bytes hb) else outp)
        = (if outp = [] then name_of ?h else outp)"
      by (simp add: hh)
    show ?thesis
      using decode_writes [OF h validate_make_header level_of_make_header nz d t out w]
      by (simp add: sz ofs len l2 o2)
  qed
  have c1: "length pd mod 16 = 0" using m by (simp add: len)
  have c2: "length content + 1 \<le> length pd" using lo by (simp add: len)
  have c3: "1 \<le> length pd - length content" using lo by (simp add: len)
  have c4: "length pd - length content \<le> 16" using hi by (simp add: len)
  have c5: "pd = content @ replicate (length pd - length content)
                       (of_nat (length pd - length content))"
    unfolding len by (rule app)
  have c6: "buffer sizeof_Header (img_decode img' sizeof_Header Low None) = hb
        \<and> buffer (length pd) (img_decode img' (length pd) l2 o2) = pd
        \<and> file_writable wd' (if outp = [] then name_of (header_of_bytes hb) else outp)
        \<longrightarrow> decode wd' img' outp
            = Inr \<lparr> ret = 0, err = None,
                 trace = [ImgDecode sizeof_Header Low None, ImgDecode (length pd) l2 o2,
                          FileWrite (if outp = [] then name_of (header_of_bytes hb) else outp)
                            content] \<rparr>"
    using dec by blast
  show ?thesis
    by (intro conjI c1 c2 c3 c4 c5 c6)
qed

theorem padding_roundtrip_witness:
  "encode (world_of hello (blank 64 64) 7 True) (blank 64 64) ''docs/hello.txt'' ''out.png'' Low
     = Inr \<lparr> ret = 1, err = None,
          trace = [ImgEncode (header_bytes (make_header Low 487 16 ''hello.txt'')) Low None,
                   ImgEncode (padded_data_of hello) Low (Some 487),
                   ImgSave ''out.png'' True] \<rparr>
   \<and> length (padded_data_of hello) = 16
   \<and> padded_data_of hello = hello @ replicate 6 6
   \<and> decode (world_of hello (blank 64 64) 7 True) embedded ''out.txt''
     = Inr \<lparr> ret = 0, err = None,
          trace = [ImgDecode sizeof_Header Low None, ImgDecode 16 Low (Some 487),
                   FileWrite ''out.txt'' hello] \<rparr>"
proof -
  let ?wd = "world_of hello (blank 64 64) 7 True"
  let ?r = "\<lparr> ret = 1, err = None,
          trace = [ImgEncode (header_bytes (make_header Low 487 16 ''hello.txt'')) Low None,
                   ImgEncode (padded_data_of hello) Low (Some 487),
                   ImgSave ''out.png'' True] \<rparr>"
  have fc: "file_contents ?wd ''docs/hello.txt'' = Some hello"
    by (simp add: world_of_def)
  have tr: "trace ?r = [ImgEncode (header_bytes (make_header Low 487 16 ''hello.txt'')) Low None,
                   ImgEncode (padded_data_of hello) Low (Some 487),
                   ImgSave ''out.png'' True]"
    by simp
  have w: "file_writable ?wd (if ''out.txt'' = []
      then name_of (header_of_bytes (header_bytes (make_header Low 487 16 ''hello.txt'')))
      else ''out.txt'')"
    by (simp add: world_of_def)
  have len: "length (padded_data_of hello) = 16"
    by (simp add: length_padded_data_of length_hello padded_size_of_10)
  show ?thesis
    using padding_roundtrip [OF fc encode_hello_7 tr, of embedded ?wd "''out.txt''"]
      embedded_header embedded_payload w encode_hello_7 len
    by (simp add: length_hello)
qed

end
